theory Spec2Isabelle
  imports Complex_Main
begin

section \<open>Data model\<close>

text \<open>
  The graph data of \<^verbatim>\<open>src/types/graph.ts\<close>, restricted to the fields that
  \<^verbatim>\<open>src/components/Graph.tsx\<close> reads for its circles and lines: a node's \<^verbatim>\<open>index\<close>,
  \<^verbatim>\<open>x\<close>, \<^verbatim>\<open>y\<close> and \<^verbatim>\<open>label\<close>, a link's \<^verbatim>\<open>source\<close> and \<^verbatim>\<open>target\<close>. Coordinates are
  real numbers, with exact arithmetic in place of JavaScript's doubles. A link's distance
  only reaches the text of a label, and the text elements are left out: no selection of
  the playback code matches them.
\<close>

record node =
  index :: nat
  x :: real
  y :: real
  label :: string

record link =
  source :: nat
  target :: nat

text \<open>The attribute values the component writes: 'white', 'red', 'green', 'black'.\<close>

datatype color = White | Red | Green | Black

text \<open>
  The props of the component that stay fixed for one run. \<open>startNode\<close> and \<open>goalNode\<close> are
  optional strings; \<open>onAnimationComplete\<close> records whether the host passed the optional
  callback.
\<close>

record props =
  nodes :: "node list"
  links :: "link list"
  paths :: "(string \<times> string) list"
  algorithm :: string
  startNode :: "string option"
  goalNode :: "string option"
  onAnimationComplete :: bool

text \<open>
  The circles and lines of the SVG group, in document order. A circle carries its id
  \<^verbatim>\<open>circle-<index>\<close>, its centre, its radius (attribute \<^verbatim>\<open>r\<close>), its \<^verbatim>\<open>data-label\<close> and
  its fill; a line carries its id \<^verbatim>\<open>line-<source>-<target>\<close>, its end points, its stroke
  and its stroke width. The stroke of a circle is always black and is left out.
\<close>

record circle =
  circle_id :: nat
  cx :: real
  cy :: real
  radius :: nat
  data_label :: string
  fill :: color

record line =
  line_id :: "nat \<times> nat"
  x1 :: real
  y1 :: real
  x2 :: real
  y2 :: real
  stroke :: color
  stroke_width :: nat

record dimensions =
  width :: nat
  height :: nat

text \<open>
  The state of a mounted component: the two refs, the React state variables, the elements
  of the group, and the number of times the completion callback has been invoked. The
  group ref is set throughout: the effect that creates the group runs before every other
  effect that uses it.
  \<open>animationRef\<close> is \<open>None\<close> when no interval is armed; an armed interval holds the
  \<^verbatim>\<open>animate\<close> closure of the render that armed it, of which the captured \<^verbatim>\<open>isPaused\<close> is kept
  (every other value it captures is a dependency of \<^verbatim>\<open>startAnimation\<close>, whose effect
  disarms and re-arms the interval whenever one of them changes).
\<close>

record state =
  currentIndexRef :: nat
  animationRef :: "bool option"
  isPaused :: bool
  isComplete :: bool
  currentStep :: "string option"
  dims :: dimensions
  circles :: "circle list"
  lines :: "line list"
  completions :: nat

section \<open>Array and selection helpers\<close>

text \<open>\<^verbatim>\<open>Array.prototype.findIndex\<close>: the first index whose element satisfies the predicate;
  \<open>None\<close> stands for -1.\<close>

fun findIndex :: "('a \<Rightarrow> bool) \<Rightarrow> 'a list \<Rightarrow> nat option" where
  "findIndex P [] = None"
| "findIndex P (a # as) = (if P a then Some 0 else map_option Suc (findIndex P as))"

text \<open>\<^verbatim>\<open>g.select(sel).attr(...)\<close>: the first element in document order that matches is
  updated; when none matches nothing changes.\<close>

fun selectFirst :: "('a \<Rightarrow> bool) \<Rightarrow> ('a \<Rightarrow> 'a) \<Rightarrow> 'a list \<Rightarrow> 'a list" where
  "selectFirst P f [] = []"
| "selectFirst P f (e # es) = (if P e then f e # es else e # selectFirst P f es)"

section \<open>The component's functions\<close>

text \<open>
  The functions follow \<^verbatim>\<open>src/components/Graph.tsx\<close>. The second copy of the component
  among the sources (fixed at 900 x 700) has the same playback code, with the stroke width
  of a highlighted line always 10 and no resize handling.

  React runs a handler, the render its state updates cause and the effects of that render
  before the next event is handled; each operation below is such a unit, and the interval
  fires between units only.
\<close>

text \<open>\<^verbatim>\<open>calculateDimensions\<close> (Graph.tsx 44-61). \<^verbatim>\<open>Math.round(maxWidth * (700 / 900))\<close> is
  rounding to nearest; \<open>7 * maxWidth / 9\<close> is never half-way between two integers.\<close>

definition calculateDimensions :: "nat \<Rightarrow> nat \<Rightarrow> dimensions" where
  "calculateDimensions containerWidth innerWidth =
     (if innerWidth \<le> 768
      then (let size = min 500 containerWidth in \<lparr>width = size, height = size\<rparr>)
      else (let maxWidth = min 900 containerWidth
            in \<lparr>width = maxWidth, height = (maxWidth * 700 + 450) div 900\<rparr>))"

definition clearAnimation :: "state \<Rightarrow> state" where
  "clearAnimation s = s\<lparr>animationRef := None\<rparr>"

text \<open>\<^verbatim>\<open>setInitialNodeColors\<close> (Graph.tsx 84-99).\<close>

definition initialFill :: "props \<Rightarrow> nat \<Rightarrow> string \<Rightarrow> color" where
  "initialFill pr nodeIndex lbl =
     (let hasBeenVisited = list_ex (\<lambda>(_, tgt). tgt = lbl) (take nodeIndex (paths pr))
      in if Some lbl = startNode pr then Red
         else if Some lbl = goalNode pr then Green
         else if hasBeenVisited then Red
         else White)"

definition setInitialNodeColors :: "props \<Rightarrow> state \<Rightarrow> state" where
  "setInitialNodeColors pr s =
     s\<lparr>circles := map (\<lambda>c. c\<lparr>fill := initialFill pr (currentIndexRef s) (data_label c)\<rparr>)
                       (circles s)\<rparr>"

text \<open>The fill \<^verbatim>\<open>drawGraph\<close> gives a new circle, and the one \<^verbatim>\<open>resetVisualization\<close>
  leaves after its white / filter / fill chain.\<close>

definition staticFill :: "props \<Rightarrow> string \<Rightarrow> color" where
  "staticFill pr lbl =
     (if Some lbl = startNode pr then Red else if Some lbl = goalNode pr then Green else White)"

text \<open>
  The two scales of \<^verbatim>\<open>drawGraph\<close> (Graph.tsx 152-158): \<^verbatim>\<open>d3.scaleLinear()\<close> from the
  domain [0, 900] to the range [30, width - 30], and from [0, 700] to [30, height - 30].
\<close>

definition xScale :: "dimensions \<Rightarrow> real \<Rightarrow> real" where
  "xScale d v = 30 + v / 900 * ((real (width d) - 30) - 30)"

definition yScale :: "dimensions \<Rightarrow> real \<Rightarrow> real" where
  "yScale d v = 30 + v / 700 * ((real (height d) - 30) - 30)"

text \<open>
  \<^verbatim>\<open>drawGraph\<close> (Graph.tsx 145-218) of a render with dimensions \<open>d\<close>, run on the empty group
  the zoom effect has just created. With no nodes it returns at once. Each link reads
  \<^verbatim>\<open>data.nodes[source]\<close> and \<^verbatim>\<open>data.nodes[target]\<close> by array position and then their
  coordinates: a position out of range is a TypeError, which is \<open>None\<close> here.
\<close>

definition drawGraph :: "props \<Rightarrow> dimensions \<Rightarrow> (circle list \<times> line list) option" where
  "drawGraph pr d =
     (if nodes pr = [] then Some ([], [])
      else if list_all (\<lambda>l. source l < length (nodes pr) \<and> target l < length (nodes pr)) (links pr)
      then Some (map (\<lambda>n. \<lparr>circle_id = index n, cx = xScale d (x n), cy = yScale d (y n),
                               radius = (if width d \<le> 500 then 15 else 20),
                               data_label = label n, fill = staticFill pr (label n)\<rparr>) (nodes pr),
                 map (\<lambda>l. \<lparr>line_id = (source l, target l),
                               x1 = xScale d (x (nodes pr ! source l)),
                               y1 = yScale d (y (nodes pr ! source l)),
                               x2 = xScale d (x (nodes pr ! target l)),
                               y2 = yScale d (y (nodes pr ! target l)),
                               stroke = Black, stroke_width = 1\<rparr>)
                     (links pr))
      else None)"

text \<open>The de-highlighting part of \<^verbatim>\<open>animate\<close> (Graph.tsx 239-254) at path index \<open>i\<close>.\<close>

definition dehighlight :: "props \<Rightarrow> nat \<Rightarrow> string \<Rightarrow> line list \<Rightarrow> line list" where
  "dehighlight pr i sourceLabel ls =
     (if algorithm pr \<noteq> ''bfs'' then
        (case findIndex (\<lambda>path. fst path = sourceLabel) (take i (paths pr)) of
           None \<Rightarrow> ls
         | Some repeatedPathIndex \<Rightarrow>
             (case paths pr ! repeatedPathIndex of (prevSource, prevTarget) \<Rightarrow>
                (case (find (\<lambda>n. label n = prevSource) (nodes pr),
                       find (\<lambda>n. label n = prevTarget) (nodes pr)) of
                   (Some prevSourceNode, Some prevTargetNode) \<Rightarrow>
                     selectFirst (\<lambda>l. line_id l = (index prevSourceNode, index prevTargetNode))
                       (\<lambda>l. l\<lparr>stroke := Black, stroke_width := 1\<rparr>) ls
                 | _ \<Rightarrow> ls)))
      else ls)"

text \<open>The body of \<^verbatim>\<open>animate\<close> under \<^verbatim>\<open>if (currentPath)\<close> (Graph.tsx 233-265).\<close>

definition applyPath :: "props \<Rightarrow> state \<Rightarrow> state" where
  "applyPath pr s =
     (if currentIndexRef s < length (paths pr) then
        (case paths pr ! currentIndexRef s of (sourceLabel, targetLabel) \<Rightarrow>
           (case (find (\<lambda>n. label n = sourceLabel) (nodes pr),
                  find (\<lambda>n. label n = targetLabel) (nodes pr)) of
              (Some sourceNode, Some targetNode) \<Rightarrow>
                s\<lparr>lines :=
                    selectFirst (\<lambda>l. line_id l = (index sourceNode, index targetNode))
                      (\<lambda>l. l\<lparr>stroke := Red,
                               stroke_width := (if width (dims s) \<le> 500 then 5 else 10)\<rparr>)
                      (dehighlight pr (currentIndexRef s) sourceLabel (lines s)),
                  circles :=
                    selectFirst (\<lambda>c. circle_id c = index targetNode) (\<lambda>c. c\<lparr>fill := Red\<rparr>)
                      (circles s),
                  currentStep :=
                    Some (''From Node: '' @ sourceLabel @ '' to Node: '' @ targetLabel)\<rparr>
            | _ \<Rightarrow> s))
      else s)"

text \<open>The tail of \<^verbatim>\<open>animate\<close> (Graph.tsx 267-276).\<close>

definition advance :: "props \<Rightarrow> state \<Rightarrow> state" where
  "advance pr s =
     (if int (currentIndexRef s) \<ge> int (length (paths pr)) - 1
      then (clearAnimation (s\<lparr>isComplete := True\<rparr>))
             \<lparr>completions := (if onAnimationComplete pr then completions s + 1 else completions s)\<rparr>
      else s\<lparr>currentIndexRef := currentIndexRef s + 1\<rparr>)"

text \<open>\<^verbatim>\<open>animate\<close> (Graph.tsx 229-277); \<open>paused\<close> is the \<^verbatim>\<open>isPaused\<close> its closure captured.\<close>

definition animate :: "props \<Rightarrow> bool \<Rightarrow> state \<Rightarrow> state" where
  "animate pr paused s = (if paused then s else advance pr (applyPath pr s))"

text \<open>\<^verbatim>\<open>startAnimation\<close> (Graph.tsx 220-284) of a render whose \<^verbatim>\<open>isPaused\<close> is \<open>paused\<close>,
  with the group in place.\<close>

definition startAnimation :: "props \<Rightarrow> bool \<Rightarrow> state \<Rightarrow> state" where
  "startAnimation pr paused s =
     (if paths pr = [] then s
      else (let s1 = (if currentIndexRef s = 0 then setInitialNodeColors pr s else s)
            in if animationRef s1 = None then s1\<lparr>animationRef := Some paused\<rparr> else s1))"

text \<open>One firing of the interval: nothing fires when no interval is armed.\<close>

definition tick :: "props \<Rightarrow> state \<Rightarrow> state" where
  "tick pr s = (case animationRef s of None \<Rightarrow> s | Some paused \<Rightarrow> animate pr paused s)"

text \<open>
  The effect \<^verbatim>\<open>useEffect(() => { startAnimation(); return () => clearAnimation(); },
  [startAnimation])\<close> (Graph.tsx 342-345) when \<^verbatim>\<open>startAnimation\<close> has a new identity: the
  cleanup of the previous render, then \<^verbatim>\<open>startAnimation\<close> of the new one.
\<close>

definition rerunStartEffect :: "props \<Rightarrow> state \<Rightarrow> state" where
  "rerunStartEffect pr s = startAnimation pr (isPaused s) (clearAnimation s)"

text \<open>
  \<^verbatim>\<open>togglePause\<close> (Graph.tsx 287-296), followed by the render its \<^verbatim>\<open>setIsPaused\<close> causes:
  \<^verbatim>\<open>isPaused\<close> is a dependency of \<^verbatim>\<open>startAnimation\<close>, so the effect above runs again.
\<close>

definition togglePause :: "props \<Rightarrow> state \<Rightarrow> state" where
  "togglePause pr s =
     (let s1 = (if isPaused s
                then (if animationRef s = None then startAnimation pr (isPaused s) s else s)
                else clearAnimation s)
      in rerunStartEffect pr (s1\<lparr>isPaused := \<not> isPaused s\<rparr>))"

text \<open>
  \<^verbatim>\<open>resetVisualization\<close> of the imperative handle (Graph.tsx 297-323), followed by the
  render its state updates cause: the start effect runs again only when \<^verbatim>\<open>isPaused\<close>
  changed, that is when it was true.
\<close>

definition resetVisualization :: "props \<Rightarrow> state \<Rightarrow> state" where
  "resetVisualization pr s =
     (let s1 = (clearAnimation s)\<lparr>currentIndexRef := 0, currentStep := None,
                                   isComplete := False, isPaused := False\<rparr>;
          s2 = setInitialNodeColors pr s1;
          s3 = s2\<lparr>lines := map (\<lambda>l. l\<lparr>stroke := Black, stroke_width := 1\<rparr>) (lines s2)\<rparr>;
          s4 = s3\<lparr>circles := map (\<lambda>c. if Some (data_label c) = startNode pr
                                           \<or> Some (data_label c) = goalNode pr
                                        then c\<lparr>fill := staticFill pr (data_label c)\<rparr>
                                        else c\<lparr>fill := White\<rparr>) (circles s3)\<rparr>
      in if isPaused s then rerunStartEffect pr s4 else s4)"

text \<open>
  The effects that run after a render with new \<^verbatim>\<open>dimensions\<close> (Graph.tsx 326-345): the
  start effect's cleanup, then in order the zoom effect (a new, empty group),
  \<^verbatim>\<open>drawGraph\<close> and \<^verbatim>\<open>startAnimation\<close>.
\<close>

definition commitDimensions :: "props \<Rightarrow> dimensions \<Rightarrow> state \<Rightarrow> state option" where
  "commitDimensions pr d s =
     (case drawGraph pr d of
        None \<Rightarrow> None
      | Some (cs, ls) \<Rightarrow>
          Some (startAnimation pr (isPaused s)
                  ((clearAnimation s)\<lparr>dims := d, circles := cs, lines := ls\<rparr>)))"

text \<open>A resize event: \<^verbatim>\<open>handleResize\<close> calls \<^verbatim>\<open>calculateDimensions\<close>, which always sets
  a new dimensions object.\<close>

definition resize :: "props \<Rightarrow> nat \<Rightarrow> nat \<Rightarrow> state \<Rightarrow> state option" where
  "resize pr containerWidth innerWidth s =
     commitDimensions pr (calculateDimensions containerWidth innerWidth) s"

text \<open>The hooks' initial values (Graph.tsx 36-41), before any effect has run.\<close>

definition initialState :: state where
  "initialState =
     \<lparr>currentIndexRef = 0, animationRef = None, isPaused = False, isComplete = False,
      currentStep = None, dims = \<lparr>width = 900, height = 700\<rparr>, circles = [], lines = [],
      completions = 0\<rparr>"

text \<open>
  Mounting: the effects of the first render run at 900 x 700, among them
  \<^verbatim>\<open>calculateDimensions\<close>, whose new dimensions cause a second render and its effects.
\<close>

definition mount :: "props \<Rightarrow> nat \<Rightarrow> nat \<Rightarrow> state option" where
  "mount pr containerWidth innerWidth =
     (case commitDimensions pr (dims initialState) initialState of
        None \<Rightarrow> None
      | Some s \<Rightarrow> resize pr containerWidth innerWidth s)"

text \<open>\<open>k\<close> consecutive firings of the interval.\<close>

fun ticks :: "props \<Rightarrow> nat \<Rightarrow> state \<Rightarrow> state" where
  "ticks pr 0 s = s"
| "ticks pr (Suc k) s = ticks pr k (tick pr s)"

text \<open>
  The playback phase a state is in, read off the component's variables: paused while
  \<^verbatim>\<open>isPaused\<close> is set; otherwise running while an interval is armed; otherwise, with no
  interval, complete once \<^verbatim>\<open>isComplete\<close> is set and idle before that.
\<close>

datatype phase = Idle | Running | Paused | Complete

definition phaseOf :: "state \<Rightarrow> phase" where
  "phaseOf s =
     (if isPaused s then Paused
      else if animationRef s \<noteq> None then Running
      else if isComplete s then Complete
      else Idle)"



text \<open>The states one run can reach: mounting, then any sequence of interval firings,
  pause toggles, resets and resizes.\<close>

inductive reachable :: "props \<Rightarrow> state \<Rightarrow> bool" for pr :: props where
  r_mount: "mount pr cw iw = Some s \<Longrightarrow> reachable pr s"
| r_tick: "reachable pr s \<Longrightarrow> reachable pr (tick pr s)"
| r_toggle: "reachable pr s \<Longrightarrow> reachable pr (togglePause pr s)"
| r_reset: "reachable pr s \<Longrightarrow> reachable pr (resetVisualization pr s)"
| r_resize: "reachable pr s \<Longrightarrow> resize pr cw iw s = Some s' \<Longrightarrow> reachable pr s'"

text \<open>What holds in every state a run can reach.\<close>

definition run_inv :: "props \<Rightarrow> state \<Rightarrow> bool" where
  "run_inv pr s \<longleftrightarrow>
     (if paths pr = []
      then currentIndexRef s = 0 \<and> \<not> isComplete s \<and> animationRef s = None \<and> completions s = 0
      else currentIndexRef s < length (paths pr) \<and>
           (isComplete s \<longrightarrow> currentIndexRef s + 1 = length (paths pr)))"

text \<open>The states a run can reach before it completes: the same events, each handled in a
  state where \<^verbatim>\<open>isComplete\<close> is not yet set.\<close>

inductive playing :: "props \<Rightarrow> state \<Rightarrow> bool" for pr :: props where
  p_mount: "mount pr cw iw = Some s \<Longrightarrow> playing pr s"
| p_tick: "playing pr s \<Longrightarrow> \<not> isComplete s \<Longrightarrow> playing pr (tick pr s)"
| p_toggle: "playing pr s \<Longrightarrow> \<not> isComplete s \<Longrightarrow> playing pr (togglePause pr s)"
| p_reset: "playing pr s \<Longrightarrow> \<not> isComplete s \<Longrightarrow> playing pr (resetVisualization pr s)"
| p_resize: "playing pr s \<Longrightarrow> \<not> isComplete s \<Longrightarrow> resize pr cw iw s = Some s'
             \<Longrightarrow> playing pr s'"


section \<open>Example runs\<close>

definition nodeA :: node where "nodeA = \<lparr>index = 0, x = 90, y = 70, label = ''A''\<rparr>"
definition nodeB :: node where "nodeB = \<lparr>index = 1, x = 450, y = 140, label = ''B''\<rparr>"
definition nodeC :: node where "nodeC = \<lparr>index = 2, x = 810, y = 350, label = ''C''\<rparr>"
definition nodeD :: node where "nodeD = \<lparr>index = 3, x = 180, y = 630, label = ''D''\<rparr>"

text \<open>Every example graph lists a prefix of these four nodes, in this order.\<close>

definition nodeAt :: "nat \<Rightarrow> node" where
  "nodeAt i = [nodeA, nodeB, nodeC, nodeD] ! i"

text \<open>The two-step scenario: A to B, B to C, depth first, start A, goal C.\<close>

definition scenarioRun :: props where
  "scenarioRun =
     \<lparr>nodes = [nodeA, nodeB, nodeC],
      links = [\<lparr>source = 0, target = 1\<rparr>, \<lparr>source = 1, target = 2\<rparr>],
      paths = [(''A'', ''B''), (''B'', ''C'')], algorithm = ''dfs'',
      startNode = Some ''A'', goalNode = Some ''C'', onAnimationComplete = True\<rparr>"

text \<open>The component before a search has run: the host passes an empty path sequence.\<close>

definition emptyRun :: props where
  "emptyRun =
     \<lparr>nodes = [nodeA, nodeB], links = [\<lparr>source = 0, target = 1\<rparr>],
      paths = [], algorithm = ''dfs'',
      startNode = Some ''A'', goalNode = Some ''B'', onAnimationComplete = True\<rparr>"

text \<open>A single step A to B; the goal C is not reached.\<close>

definition singleStepRun :: props where
  "singleStepRun =
     \<lparr>nodes = [nodeA, nodeB, nodeC],
      links = [\<lparr>source = 0, target = 1\<rparr>, \<lparr>source = 1, target = 2\<rparr>],
      paths = [(''A'', ''B'')], algorithm = ''dfs'',
      startNode = Some ''A'', goalNode = Some ''C'', onAnimationComplete = True\<rparr>"

text \<open>A depth-first search that tries three branches out of A in turn.\<close>

definition branchingRun :: props where
  "branchingRun =
     \<lparr>nodes = [nodeA, nodeB, nodeC, nodeD],
      links = [\<lparr>source = 0, target = 1\<rparr>, \<lparr>source = 0, target = 2\<rparr>,
               \<lparr>source = 0, target = 3\<rparr>],
      paths = [(''A'', ''B''), (''A'', ''C''), (''A'', ''D'')], algorithm = ''dfs'',
      startNode = Some ''A'', goalNode = Some ''D'', onAnimationComplete = True\<rparr>"

text \<open>The same run played breadth first.\<close>

definition branchingBfsRun :: props where
  "branchingBfsRun = branchingRun\<lparr>algorithm := ''bfs''\<rparr>"

text \<open>A path sequence whose first and last steps name the label Z, which no node has.\<close>

definition missingRefRun :: props where
  "missingRefRun =
     \<lparr>nodes = [nodeA, nodeB], links = [\<lparr>source = 0, target = 1\<rparr>],
      paths = [(''A'', ''Z''), (''A'', ''B''), (''B'', ''Z'')], algorithm = ''dfs'',
      startNode = Some ''A'', goalNode = Some ''B'', onAnimationComplete = True\<rparr>"

text \<open>The edge between A and C is stored as (2, 0); the second step walks it from A to C.\<close>

definition reversedRun :: props where
  "reversedRun =
     \<lparr>nodes = [nodeA, nodeB, nodeC],
      links = [\<lparr>source = 0, target = 1\<rparr>, \<lparr>source = 2, target = 0\<rparr>],
      paths = [(''A'', ''B''), (''A'', ''C'')], algorithm = ''dfs'',
      startNode = Some ''A'', goalNode = Some ''C'', onAnimationComplete = True\<rparr>"

text \<open>
  Building blocks for writing concrete scenes and the state right after mounting, drawn
  at \<open>d\<close>; without the dimensions they are drawn at 900 x 700.
\<close>

definition lineAt :: "dimensions \<Rightarrow> nat \<Rightarrow> nat \<Rightarrow> color \<Rightarrow> nat \<Rightarrow> line" where
  "lineAt d a b c w =
     \<lparr>line_id = (a, b), x1 = xScale d (x (nodeAt a)), y1 = yScale d (y (nodeAt a)),
      x2 = xScale d (x (nodeAt b)), y2 = yScale d (y (nodeAt b)), stroke = c, stroke_width = w\<rparr>"

definition circleAt :: "dimensions \<Rightarrow> node \<Rightarrow> color \<Rightarrow> circle" where
  "circleAt d n c =
     \<lparr>circle_id = index n, cx = xScale d (x n), cy = yScale d (y n),
      radius = (if width d \<le> 500 then 15 else 20), data_label = label n, fill = c\<rparr>"

definition neutralLine :: "nat \<Rightarrow> nat \<Rightarrow> line" where
  "neutralLine a b = lineAt \<lparr>width = 900, height = 700\<rparr> a b Black 1"

definition activeLine :: "nat \<Rightarrow> nat \<Rightarrow> line" where
  "activeLine a b = lineAt \<lparr>width = 900, height = 700\<rparr> a b Red 10"

definition circleOf :: "node \<Rightarrow> color \<Rightarrow> circle" where
  "circleOf n c = circleAt \<lparr>width = 900, height = 700\<rparr> n c"

definition startedState :: "circle list \<Rightarrow> line list \<Rightarrow> state" where
  "startedState cs ls =
     \<lparr>currentIndexRef = 0, animationRef = Some False, isPaused = False, isComplete = False,
      currentStep = None, dims = \<lparr>width = 900, height = 700\<rparr>, circles = cs, lines = ls,
      completions = 0\<rparr>"

definition scenarioStart :: state where
  "scenarioStart =
     startedState [circleOf nodeA Red, circleOf nodeB White, circleOf nodeC Green]
       [neutralLine 0 1, neutralLine 1 2]"

definition idleState :: "circle list \<Rightarrow> line list \<Rightarrow> state" where
  "idleState cs ls = (startedState cs ls)\<lparr>animationRef := None\<rparr>"

definition emptyStart :: state where
  "emptyStart = idleState [circleOf nodeA Red, circleOf nodeB Green] [neutralLine 0 1]"

definition singleStepStart :: state where
  "singleStepStart =
     startedState [circleOf nodeA Red, circleOf nodeB White, circleOf nodeC Green]
       [neutralLine 0 1, neutralLine 1 2]"

text \<open>The two-step scenario after its first firing and a resize to a 400 pixel container.\<close>

definition scenarioResized :: state where
  "scenarioResized =
     \<lparr>currentIndexRef = 1, animationRef = Some False, isPaused = False, isComplete = False,
      currentStep = Some ''From Node: A to Node: B'', dims = \<lparr>width = 400, height = 400\<rparr>,
      circles = [circleAt \<lparr>width = 400, height = 400\<rparr> nodeA Red,
                 circleAt \<lparr>width = 400, height = 400\<rparr> nodeB White,
                 circleAt \<lparr>width = 400, height = 400\<rparr> nodeC Green],
      lines = [lineAt \<lparr>width = 400, height = 400\<rparr> 0 1 Black 1,
               lineAt \<lparr>width = 400, height = 400\<rparr> 1 2 Black 1],
      completions = 0\<rparr>"

definition branchingStart :: state where
  "branchingStart =
     startedState
       [circleOf nodeA Red, circleOf nodeB White, circleOf nodeC White, circleOf nodeD Green]
       [neutralLine 0 1, neutralLine 0 2, neutralLine 0 3]"

definition missingRefStart :: state where
  "missingRefStart = startedState [circleOf nodeA Red, circleOf nodeB Green] [neutralLine 0 1]"

definition reversedStart :: state where
  "reversedStart =
     startedState [circleOf nodeA Red, circleOf nodeB White, circleOf nodeC Green]
       [neutralLine 0 1, neutralLine 2 0]"

section \<open>Unfolding the model on concrete runs\<close>

lemmas run_defs =
  nodeA_def nodeB_def nodeC_def nodeD_def nodeAt_def scenarioRun_def emptyRun_def singleStepRun_def
  branchingRun_def branchingBfsRun_def missingRefRun_def reversedRun_def

lemmas model_defs =
  mount_def resize_def commitDimensions_def drawGraph_def initialState_def
  startAnimation_def setInitialNodeColors_def initialFill_def staticFill_def
  clearAnimation_def calculateDimensions_def tick_def animate_def applyPath_def advance_def
  dehighlight_def togglePause_def rerunStartEffect_def resetVisualization_def phaseOf_def

lemmas scene_defs =
  lineAt_def circleAt_def neutralLine_def activeLine_def circleOf_def startedState_def idleState_def
  scenarioStart_def emptyStart_def singleStepStart_def scenarioResized_def
  branchingStart_def missingRefStart_def reversedStart_def

lemma ticks_numeral: "ticks pr (numeral k) s = ticks pr (pred_numeral k) (tick pr s)"
  by (simp add: numeral_eq_Suc)

lemma scenario_mount: "mount scenarioRun 1000 1200 = Some scenarioStart"
  by (simp add: model_defs run_defs scene_defs)

lemma empty_mount: "mount emptyRun 1000 1200 = Some emptyStart"
  by (simp add: model_defs run_defs scene_defs)

lemma branching_mount: "mount branchingRun 1000 1200 = Some branchingStart"
  by (simp add: model_defs run_defs scene_defs)

lemma branchingBfs_mount: "mount branchingBfsRun 1000 1200 = Some branchingStart"
  by (simp add: model_defs run_defs scene_defs)

lemma missingRef_mount: "mount missingRefRun 1000 1200 = Some missingRefStart"
  by (simp add: model_defs run_defs scene_defs)



section \<open>How each operation acts on the playback variables\<close>

lemma applyPath_playback:
  "currentIndexRef (applyPath pr s) = currentIndexRef s"
  "animationRef (applyPath pr s) = animationRef s"
  "isPaused (applyPath pr s) = isPaused s"
  "isComplete (applyPath pr s) = isComplete s"
  "completions (applyPath pr s) = completions s"
  "dims (applyPath pr s) = dims s"
  by (simp_all add: applyPath_def split: prod.splits option.splits)

lemma setInitialNodeColors_playback:
  "currentIndexRef (setInitialNodeColors pr s) = currentIndexRef s"
  "animationRef (setInitialNodeColors pr s) = animationRef s"
  "isPaused (setInitialNodeColors pr s) = isPaused s"
  "isComplete (setInitialNodeColors pr s) = isComplete s"
  "completions (setInitialNodeColors pr s) = completions s"
  "dims (setInitialNodeColors pr s) = dims s"
  "lines (setInitialNodeColors pr s) = lines s"
  "currentStep (setInitialNodeColors pr s) = currentStep s"
  by (simp_all add: setInitialNodeColors_def)

lemma startAnimation_playback:
  "currentIndexRef (startAnimation pr p s) = currentIndexRef s"
  "isPaused (startAnimation pr p s) = isPaused s"
  "isComplete (startAnimation pr p s) = isComplete s"
  "completions (startAnimation pr p s) = completions s"
  "dims (startAnimation pr p s) = dims s"
  "lines (startAnimation pr p s) = lines s"
  "currentStep (startAnimation pr p s) = currentStep s"
  by (simp_all add: startAnimation_def Let_def setInitialNodeColors_playback)

lemma startAnimation_timer:
  "animationRef (startAnimation pr p s) =
     (if paths pr = [] then animationRef s
      else case animationRef s of None \<Rightarrow> Some p | Some q \<Rightarrow> Some q)"
  by (simp add: startAnimation_def Let_def setInitialNodeColors_playback split: option.splits)

lemma startAnimation_circles:
  "0 < currentIndexRef s \<or> paths pr = [] \<Longrightarrow> circles (startAnimation pr p s) = circles s"
  by (auto simp: startAnimation_def Let_def)

lemma rerunStartEffect_playback:
  "currentIndexRef (rerunStartEffect pr s) = currentIndexRef s"
  "isPaused (rerunStartEffect pr s) = isPaused s"
  "isComplete (rerunStartEffect pr s) = isComplete s"
  "completions (rerunStartEffect pr s) = completions s"
  "dims (rerunStartEffect pr s) = dims s"
  "lines (rerunStartEffect pr s) = lines s"
  "currentStep (rerunStartEffect pr s) = currentStep s"
  "animationRef (rerunStartEffect pr s) = (if paths pr = [] then None else Some (isPaused s))"
  by (simp_all add: rerunStartEffect_def startAnimation_playback startAnimation_timer clearAnimation_def)

lemma togglePause_playback:
  "currentIndexRef (togglePause pr s) = currentIndexRef s"
  "isPaused (togglePause pr s) = (\<not> isPaused s)"
  "isComplete (togglePause pr s) = isComplete s"
  "completions (togglePause pr s) = completions s"
  "dims (togglePause pr s) = dims s"
  "lines (togglePause pr s) = lines s"
  "currentStep (togglePause pr s) = currentStep s"
  "animationRef (togglePause pr s) = (if paths pr = [] then None else Some (\<not> isPaused s))"
  by (simp_all add: togglePause_def Let_def rerunStartEffect_playback startAnimation_playback clearAnimation_def)

lemma resetVisualization_playback:
  "currentIndexRef (resetVisualization pr s) = 0"
  "isPaused (resetVisualization pr s) = False"
  "isComplete (resetVisualization pr s) = False"
  "completions (resetVisualization pr s) = completions s"
  "dims (resetVisualization pr s) = dims s"
  "currentStep (resetVisualization pr s) = None"
  "animationRef (resetVisualization pr s) = (if isPaused s \<and> paths pr \<noteq> [] then Some False else None)"
  by (simp_all add: resetVisualization_def Let_def rerunStartEffect_playback setInitialNodeColors_playback clearAnimation_def)

lemma advance_playback:
  "currentIndexRef (advance pr s) =
     (if currentIndexRef s + 1 < length (paths pr) then currentIndexRef s + 1 else currentIndexRef s)"
  "animationRef (advance pr s) =
     (if currentIndexRef s + 1 < length (paths pr) then animationRef s else None)"
  "isComplete (advance pr s) =
     (if currentIndexRef s + 1 < length (paths pr) then isComplete s else True)"
  "completions (advance pr s) =
     (if currentIndexRef s + 1 < length (paths pr) \<or> \<not> onAnimationComplete pr then completions s
      else completions s + 1)"
  "isPaused (advance pr s) = isPaused s"
  "dims (advance pr s) = dims s"
  "circles (advance pr s) = circles s"
  "lines (advance pr s) = lines s"
  "currentStep (advance pr s) = currentStep s"
  by (auto simp: advance_def clearAnimation_def)

section \<open>Firing the interval\<close>

lemma tick_idle: "animationRef s = None \<Longrightarrow> tick pr s = s"
  by (simp add: tick_def)

lemma tick_paused: "animationRef s = Some True \<Longrightarrow> tick pr s = s"
  by (simp add: tick_def animate_def)

lemma tick_running: "animationRef s = Some False \<Longrightarrow> tick pr s = advance pr (applyPath pr s)"
  by (simp add: tick_def animate_def)


lemma tick_completions:
  "completions (tick pr s) =
     (if animationRef s = Some False \<and> \<not> currentIndexRef s + 1 < length (paths pr)
         \<and> onAnimationComplete pr
      then completions s + 1 else completions s)"
  by (cases "animationRef s")
     (auto simp: tick_def animate_def advance_playback applyPath_playback)

lemma ticks_add: "ticks pr (a + b) s = ticks pr b (ticks pr a s)"
  by (induction a arbitrary: s) simp_all

lemma ticks_idle: "animationRef s = None \<Longrightarrow> ticks pr k s = s"
  by (induction k) (simp_all add: tick_idle)

lemma ticks_running:
  "animationRef s = Some False \<Longrightarrow> currentIndexRef s + k < length (paths pr) \<Longrightarrow>
   currentIndexRef (ticks pr k s) = currentIndexRef s + k \<and>
   animationRef (ticks pr k s) = Some False \<and>
   isComplete (ticks pr k s) = isComplete s \<and>
   isPaused (ticks pr k s) = isPaused s \<and>
   completions (ticks pr k s) = completions s"
proof (induction k arbitrary: s)
  case 0
  then show ?case by simp
next
  case (Suc k)
  have step: "currentIndexRef s + 1 < length (paths pr)"
    using Suc.prems(2) by simp
  have t: "tick pr s = advance pr (applyPath pr s)"
    using Suc.prems(1) by (rule tick_running)
  have a: "animationRef (tick pr s) = Some False"
    using step Suc.prems(1) by (simp add: t advance_playback applyPath_playback)
  have i: "currentIndexRef (tick pr s) = currentIndexRef s + 1"
    using step by (simp add: t advance_playback applyPath_playback)
  have rest: "isComplete (tick pr s) = isComplete s" "isPaused (tick pr s) = isPaused s"
    "completions (tick pr s) = completions s"
    using step by (simp_all add: t advance_playback applyPath_playback)
  have "currentIndexRef (tick pr s) + k < length (paths pr)"
    using Suc.prems(2) i by simp
  from Suc.IH[OF a this] show ?case
    by (simp add: i rest)
qed

lemma tick_last:
  "animationRef s = Some False \<Longrightarrow> \<not> currentIndexRef s + 1 < length (paths pr) \<Longrightarrow>
   currentIndexRef (tick pr s) = currentIndexRef s \<and>
   animationRef (tick pr s) = None \<and>
   isComplete (tick pr s) \<and>
   isPaused (tick pr s) = isPaused s \<and>
   completions (tick pr s) = (if onAnimationComplete pr then completions s + 1 else completions s)"
  by (simp add: tick_running advance_playback applyPath_playback)

text \<open>Draining: from a running state at index i, the state after k firings.\<close>
lemma ticks_drain:
  assumes run: "animationRef s = Some False" and lt: "currentIndexRef s < length (paths pr)"
    and k: "length (paths pr) - currentIndexRef s \<le> k"
  shows "currentIndexRef (ticks pr k s) = length (paths pr) - 1 \<and>
         animationRef (ticks pr k s) = None \<and>
         isComplete (ticks pr k s) \<and>
         isPaused (ticks pr k s) = isPaused s \<and>
         completions (ticks pr k s) =
           (if onAnimationComplete pr then completions s + 1 else completions s)"
proof -
  define a where "a = length (paths pr) - currentIndexRef s - 1"
  define b where "b = k - a - 1"
  have k_eq: "k = a + (1 + b)"
    using k lt by (simp add: a_def b_def)
  have lt_a: "currentIndexRef s + a < length (paths pr)"
    using lt by (simp add: a_def)
  note r = ticks_running[OF run lt_a]
  let ?u = "ticks pr a s"
  have last: "\<not> currentIndexRef ?u + 1 < length (paths pr)"
    using r lt by (simp add: a_def)
  have ru: "animationRef ?u = Some False" using r by simp
  note l = tick_last[OF ru last]
  have idle: "ticks pr b (tick pr ?u) = tick pr ?u"
    using l by (simp add: ticks_idle)
  have "ticks pr k s = ticks pr (1 + b) ?u"
    by (simp only: k_eq ticks_add)
  also have "\<dots> = ticks pr b (tick pr ?u)"
    by simp
  finally have "ticks pr k s = tick pr ?u"
    by (simp only: idle)
  then show ?thesis
    using l r lt by (simp add: a_def)
qed

lemma drawGraph_Some_iff:
  "(\<exists>sc. drawGraph pr d = Some sc) \<longleftrightarrow>
     (nodes pr = [] \<or> list_all (\<lambda>l. source l < length (nodes pr) \<and> target l < length (nodes pr)) (links pr))"
  by (auto simp: drawGraph_def)

lemma commitDimensions_playback:
  assumes "commitDimensions pr d s = Some s'"
  shows "currentIndexRef s' = currentIndexRef s" "isPaused s' = isPaused s"
    "isComplete s' = isComplete s" "completions s' = completions s" "dims s' = d"
    "currentStep s' = currentStep s"
    "animationRef s' = (if paths pr = [] then None else Some (isPaused s))"
  using assms
  by (auto simp: commitDimensions_def startAnimation_playback startAnimation_timer
      clearAnimation_def split: option.splits prod.splits)

lemma mount_playback:
  assumes "mount pr cw iw = Some s"
  shows "currentIndexRef s = 0" "isPaused s = False" "isComplete s = False" "completions s = 0"
    "currentStep s = None"
    "animationRef s = (if paths pr = [] then None else Some False)"
proof -
  from assms obtain s0 where a: "commitDimensions pr (dims initialState) initialState = Some s0"
    and b: "commitDimensions pr (calculateDimensions cw iw) s0 = Some s"
    by (auto simp: mount_def resize_def split: option.splits)
  note pa = commitDimensions_playback[OF a] and pb = commitDimensions_playback[OF b]
  show "currentIndexRef s = 0" "isPaused s = False" "isComplete s = False" "completions s = 0"
    "currentStep s = None"
    "animationRef s = (if paths pr = [] then None else Some False)"
    by (simp_all add: pa pb initialState_def)
qed

lemma resize_playback:
  assumes "resize pr cw iw s = Some s'"
  shows "currentIndexRef s' = currentIndexRef s" "isPaused s' = isPaused s"
    "isComplete s' = isComplete s" "completions s' = completions s"
    "dims s' = calculateDimensions cw iw" "currentStep s' = currentStep s"
    "animationRef s' = (if paths pr = [] then None else Some (isPaused s))"
  using assms commitDimensions_playback[of pr "calculateDimensions cw iw" s s']
  by (simp_all add: resize_def)

lemma togglePause_circles:
  "0 < currentIndexRef s \<or> paths pr = [] \<Longrightarrow> circles (togglePause pr s) = circles s"
  by (auto simp: togglePause_def rerunStartEffect_def Let_def startAnimation_circles
      startAnimation_playback clearAnimation_def)

section \<open>Selections\<close>

lemma selectFirst_length: "length (selectFirst P f es) = length es"
  by (induction es) simp_all

lemma selectFirst_nth:
  "i < length es \<Longrightarrow> selectFirst P f es ! i = es ! i \<or> selectFirst P f es ! i = f (es ! i)"
proof (induction es arbitrary: i)
  case Nil
  then show ?case by simp
next
  case (Cons e es)
  then show ?case by (cases i) auto
qed



lemma dehighlight_bfs: "algorithm pr = ''bfs'' \<Longrightarrow> dehighlight pr i sourceLabel ls = ls"
  by (simp add: dehighlight_def)




lemma applyPath_bfs_keeps_red:
  assumes bfs: "algorithm pr = ''bfs''" and i: "i < length (lines s)"
    and red: "stroke (lines s ! i) = Red"
  shows "stroke (lines (applyPath pr s) ! i) = Red"
proof -
  have sel: "stroke (selectFirst P (\<lambda>l. l\<lparr>stroke := Red, stroke_width := w\<rparr>) (lines s) ! i) = Red"
    for P w
    using selectFirst_nth[OF i, of P "\<lambda>l. l\<lparr>stroke := Red, stroke_width := w\<rparr>"] red by auto
  show ?thesis
    using red sel
    by (simp add: applyPath_def dehighlight_bfs[OF bfs] split: option.splits prod.splits)
qed

lemma bfs_tick_keeps_red:
  assumes "algorithm pr = ''bfs''" and "i < length (lines s)" and "stroke (lines s ! i) = Red"
  shows "stroke (lines (tick pr s) ! i) = Red"
  using assms applyPath_bfs_keeps_red[OF assms]
  by (cases "animationRef s") (simp_all add: tick_def animate_def advance_playback)

lemma applyPath_missing:
  assumes "paths pr ! currentIndexRef s = (sourceLabel, targetLabel)"
    and "find (\<lambda>n. label n = sourceLabel) (nodes pr) = None
         \<or> find (\<lambda>n. label n = targetLabel) (nodes pr) = None"
  shows "applyPath pr s = s"
  using assms by (auto simp: applyPath_def split: option.splits)


section \<open>Rebuilding the scene\<close>

lemma initialFill_zero: "initialFill pr 0 lbl = staticFill pr lbl"
  by (simp add: initialFill_def staticFill_def)






section \<open>The invariant of a run\<close>

lemma tick_playback_cases:
  "tick pr s = s \<or>
   (animationRef s = Some False \<and> currentIndexRef s + 1 < length (paths pr) \<and>
      currentIndexRef (tick pr s) = currentIndexRef s + 1 \<and>
      animationRef (tick pr s) = Some False \<and> isComplete (tick pr s) = isComplete s \<and>
      isPaused (tick pr s) = isPaused s \<and> completions (tick pr s) = completions s) \<or>
   (animationRef s = Some False \<and> \<not> currentIndexRef s + 1 < length (paths pr) \<and>
      currentIndexRef (tick pr s) = currentIndexRef s \<and>
      animationRef (tick pr s) = None \<and> isComplete (tick pr s) \<and>
      isPaused (tick pr s) = isPaused s)"
proof (cases "animationRef s")
  case None
  then show ?thesis by (simp add: tick_idle)
next
  case (Some p)
  show ?thesis
  proof (cases p)
    case True
    then show ?thesis using Some by (simp add: tick_paused)
  next
    case False
    then have r: "animationRef s = Some False" using Some by simp
    show ?thesis
    proof (cases "currentIndexRef s + 1 < length (paths pr)")
      case True
      then show ?thesis
        using ticks_running[OF r, of 1 pr] r by simp
    next
      case False
      then show ?thesis
        using tick_last[OF r False] r by simp
    qed
  qed
qed

lemma run_inv_tick: "run_inv pr s \<Longrightarrow> run_inv pr (tick pr s)"
  using tick_playback_cases[of pr s]
  by (auto simp: run_inv_def split: if_splits)

lemma reachable_inv: "reachable pr s \<Longrightarrow> run_inv pr s"
proof (induction rule: reachable.induct)
  case (r_mount cw iw s)
  then show ?case
    by (simp add: run_inv_def mount_playback)
next
  case (r_tick s)
  show ?case using r_tick.IH by (rule run_inv_tick)
next
  case (r_toggle s)
  then show ?case
    by (simp add: run_inv_def togglePause_playback split: if_splits)
next
  case (r_reset s)
  then show ?case
    by (simp add: run_inv_def resetVisualization_playback split: if_splits)
next
  case (r_resize s cw iw s')
  from r_resize.hyps(2) have c: "commitDimensions pr (calculateDimensions cw iw) s = Some s'"
    by (simp add: resize_def)
  show ?case
    using r_resize.IH
    by (simp add: run_inv_def commitDimensions_playback[OF c] split: if_splits)
qed


section \<open>The handlers in closed form, and what a firing applies\<close>



lemma reset_fills:
  "(if Some (data_label c) = startNode pr \<or> Some (data_label c) = goalNode pr
    then c\<lparr>fill := staticFill pr (data_label c)\<rparr> else c\<lparr>fill := White\<rparr>)
   = c\<lparr>fill := staticFill pr (data_label c)\<rparr>"
  by (simp add: staticFill_def)

lemma resetVisualization_eq:
  "resetVisualization pr s =
     s\<lparr>currentIndexRef := 0,
        animationRef := (if isPaused s \<and> paths pr \<noteq> [] then Some False else None),
        isPaused := False, isComplete := False, currentStep := None,
        circles := map (\<lambda>c. c\<lparr>fill := staticFill pr (data_label c)\<rparr>) (circles s),
        lines := map (\<lambda>l. l\<lparr>stroke := Black, stroke_width := 1\<rparr>) (lines s)\<rparr>"
  by (simp add: resetVisualization_def rerunStartEffect_def startAnimation_def
      setInitialNodeColors_def clearAnimation_def Let_def reset_fills comp_def initialFill_zero)











section \<open>The completion callback before completion\<close>

lemma playing_exactly_once:
  assumes "playing pr s" and "onAnimationComplete pr"
  shows "completions s = (if isComplete s then 1 else 0)"
  using assms(1)
proof (induction rule: playing.induct)
  case (p_mount cw iw s)
  then show ?case by (simp add: mount_playback)
next
  case (p_tick s)
  then show ?case
    using tick_playback_cases[of pr s] tick_completions[of pr s] assms(2)
    by (auto split: if_splits)
next
  case (p_toggle s)
  then show ?case by (simp add: togglePause_playback)
next
  case (p_reset s)
  then show ?case by (simp add: resetVisualization_playback)
next
  case (p_resize s cw iw s')
  then show ?case by (simp add: resize_playback)
qed


section \<open>C1: the colours of the start and goal nodes\<close>

text \<open>
  C1 fails on the code, in the two-step scenario with start A and goal C. After mounting,
  C has the goal colour. The second firing applies the step B to C and sets the fill of
  its target circle to red without looking at the goal label (Graph.tsx 260-261), so C ends
  in the visited colour. The other code that colours circles, \<^verbatim>\<open>setInitialNodeColors\<close>,
  tests the goal label before the visited test and would give C green at the same index.
\<close>

theorem goal_colour_overwritten:
  "mount scenarioRun 1000 1200 = Some scenarioStart \<and>
   goalNode scenarioRun = Some ''C'' \<and>
   map (\<lambda>c. (data_label c, fill c)) (circles scenarioStart)
     = [(''A'', Red), (''B'', White), (''C'', Green)] \<and>
   map (\<lambda>c. (data_label c, fill c)) (circles (ticks scenarioRun 2 scenarioStart))
     = [(''A'', Red), (''B'', Red), (''C'', Red)] \<and>
   initialFill scenarioRun 2 ''C'' = Green"
  by (simp add: model_defs run_defs scene_defs ticks_numeral)

section \<open>C2: starting with an empty path sequence\<close>

text \<open>
  C2, as stated, fails: with an empty path sequence \<^verbatim>\<open>startAnimation\<close> returns at its
  guard \<^verbatim>\<open>!paths.length\<close> (Graph.tsx 221). No interval is armed, but \<^verbatim>\<open>isComplete\<close> stays
  false and the completion callback is not invoked.
\<close>

theorem empty_path_no_completion_counterexample:
  "mount emptyRun 1000 1200 = Some emptyStart \<and> length (paths emptyRun) = 0 \<and>
   phaseOf (startAnimation emptyRun False emptyStart) = Idle \<and>
   completions (startAnimation emptyRun False emptyStart) = 0 \<and>
   phaseOf emptyStart = Idle \<and> completions emptyStart = 0"
  using empty_mount by (simp add: model_defs run_defs scene_defs)

text \<open>
  C2, amended. When the path sequence is empty, \<^verbatim>\<open>startAnimation\<close> leaves the state
  exactly as it is, and the phase after mounting is idle; in every state such a run can
  reach no interval is armed, a firing changes nothing, the phase is not complete and the
  completion callback has not been invoked.
\<close>

theorem empty_path_start:
  assumes "paths pr = []"
  shows "startAnimation pr paused s = s \<and>
         (mount pr cw iw = Some t \<longrightarrow> phaseOf t = Idle) \<and>
         (reachable pr t \<longrightarrow>
            animationRef t = None \<and> tick pr t = t \<and> phaseOf t \<noteq> Complete \<and>
            \<not> isComplete t \<and> completions t = 0)"
proof -
  have "startAnimation pr paused s = s"
    using assms by (simp add: startAnimation_def)
  moreover have "phaseOf t = Idle" if "mount pr cw iw = Some t"
    using mount_playback[OF that] assms by (simp add: phaseOf_def)
  moreover have "animationRef t = None \<and> tick pr t = t \<and> phaseOf t \<noteq> Complete \<and>
      \<not> isComplete t \<and> completions t = 0"
    if "reachable pr t"
    using reachable_inv[OF that] assms by (simp add: run_inv_def phaseOf_def tick_idle)
  ultimately show ?thesis by simp
qed

text \<open>Witness for C2: the component before a search, after one pause toggle.\<close>

theorem empty_path_start_witness:
  "paths emptyRun = [] \<and> reachable emptyRun (togglePause emptyRun emptyStart) \<and>
   startAnimation emptyRun False emptyStart = emptyStart \<and>
   mount emptyRun 1000 1200 = Some emptyStart \<and> phaseOf emptyStart = Idle \<and>
   animationRef (togglePause emptyRun emptyStart) = None \<and>
   phaseOf (togglePause emptyRun emptyStart) \<noteq> Complete \<and>
   \<not> isComplete (togglePause emptyRun emptyStart) \<and>
   completions (togglePause emptyRun emptyStart) = 0"
proof -
  have e: "paths emptyRun = []" by (simp add: emptyRun_def)
  have "reachable emptyRun emptyStart"
    using empty_mount by (rule r_mount)
  then have r: "reachable emptyRun (togglePause emptyRun emptyStart)"
    by (rule r_toggle)
  have i: "phaseOf emptyStart = Idle"
    using empty_path_start[OF e, of False emptyStart 1000 1200 emptyStart] empty_mount by simp
  show ?thesis
    using empty_path_start[OF e, of False emptyStart 1000 1200 "togglePause emptyRun emptyStart"]
      e r i empty_mount by simp
qed

section \<open>C3: invocations of the completion callback\<close>

text \<open>
  C3 fails on the code, in the two-step scenario. The second firing applies the last
  step, sets \<^verbatim>\<open>isComplete\<close>, disarms the interval and invokes the completion callback: one
  invocation, and the phase is complete. Nothing that arms the interval looks at
  \<^verbatim>\<open>isComplete\<close>: a resize, or a pause toggled on and off again, re-runs the start effect,
  whose \<^verbatim>\<open>startAnimation\<close> arms the interval anew; its next firing applies the last step
  again and invokes the callback a second time.
\<close>

theorem completion_invoked_twice:
  "mount scenarioRun 1000 1200 = Some scenarioStart \<and>
   phaseOf (ticks scenarioRun 2 scenarioStart) = Complete \<and>
   completions (ticks scenarioRun 2 scenarioStart) = 1 \<and>
   map_option (\<lambda>s'. (phaseOf s', completions (tick scenarioRun s')))
     (resize scenarioRun 1000 1200 (ticks scenarioRun 2 scenarioStart)) = Some (Running, 2) \<and>
   completions (tick scenarioRun (togglePause scenarioRun (togglePause scenarioRun
      (ticks scenarioRun 2 scenarioStart)))) = 2"
  by (simp add: model_defs run_defs scene_defs ticks_numeral)

section \<open>C4: the pause toggle in the idle and complete phases\<close>




section \<open>C5: stepping through the path sequence\<close>




section \<open>C6: the bounds of the step index\<close>

text \<open>
  C6, as stated, fails on the empty path sequence: after mounting, \<open>currentIndexRef\<close> is
  0, which is the length of \<open>paths\<close>, and the phase is idle, not complete:
  \<^verbatim>\<open>startAnimation\<close> returns at its guard \<^verbatim>\<open>!paths.length\<close> (Graph.tsx 221).
\<close>

theorem empty_run_not_complete_counterexample:
  "reachable emptyRun emptyStart \<and> currentIndexRef emptyStart = length (paths emptyRun) \<and>
   phaseOf emptyStart = Idle"
proof -
  have "reachable emptyRun emptyStart"
    using empty_mount by (rule r_mount)
  then show ?thesis
    by (simp add: emptyRun_def scene_defs phaseOf_def)
qed

text \<open>
  C6, amended. In every state a run can reach the step index is at most the length of the
  path sequence, and below it when the sequence is not empty. The index equals the length
  only for the empty sequence, and then \<^verbatim>\<open>isComplete\<close> is not set and the phase is never
  complete. When \<^verbatim>\<open>isComplete\<close> is set, and so whenever the phase is complete, the index
  is the position of the last step, \<open>length paths - 1\<close>.
\<close>

theorem playback_invariant:
  assumes "reachable pr s"
  shows "currentIndexRef s \<le> length (paths pr) \<and>
         (paths pr \<noteq> [] \<longrightarrow> currentIndexRef s < length (paths pr)) \<and>
         (currentIndexRef s = length (paths pr) \<longrightarrow>
            paths pr = [] \<and> phaseOf s \<noteq> Complete \<and> \<not> isComplete s) \<and>
         (phaseOf s = Complete \<longrightarrow> currentIndexRef s + 1 = length (paths pr)) \<and>
         (isComplete s \<longrightarrow> currentIndexRef s + 1 = length (paths pr))"
  using reachable_inv[OF assms]
  by (auto simp: run_inv_def phaseOf_def split: if_splits)

text \<open>Witness for C6: the two-step scenario after it has drained.\<close>

theorem playback_invariant_witness:
  "reachable scenarioRun (ticks scenarioRun 2 scenarioStart) \<and>
   paths scenarioRun \<noteq> [] \<and>
   phaseOf (ticks scenarioRun 2 scenarioStart) = Complete \<and>
   isComplete (ticks scenarioRun 2 scenarioStart) \<and>
   currentIndexRef (ticks scenarioRun 2 scenarioStart) < length (paths scenarioRun) \<and>
   currentIndexRef (ticks scenarioRun 2 scenarioStart) + 1 = length (paths scenarioRun)"
proof -
  have "reachable scenarioRun scenarioStart"
    using scenario_mount by (rule r_mount)
  then have "reachable scenarioRun (tick scenarioRun (tick scenarioRun scenarioStart))"
    by (intro r_tick)
  then have r: "reachable scenarioRun (ticks scenarioRun 2 scenarioStart)"
    by (simp add: ticks_numeral)
  have c: "phaseOf (ticks scenarioRun 2 scenarioStart) = Complete"
    "isComplete (ticks scenarioRun 2 scenarioStart)"
    by (simp_all add: model_defs run_defs scene_defs ticks_numeral)
  have ne: "paths scenarioRun \<noteq> []" by (simp add: scenarioRun_def)
  show ?thesis
    using playback_invariant[OF r] r c ne by simp
qed

section \<open>C7: reverting edges\<close>

text \<open>
  C7 fails on the code for a source with three branches, played depth first: A to B, A to
  C, A to D. The second firing reverts A-B and highlights A-C. The third firing looks for
  an earlier step with source A by \<^verbatim>\<open>findIndex\<close>, which returns the first one, so it reverts
  A-B once more and leaves A-C highlighted although the later step A to D shares its
  source label. Played breadth first, the same run reverts nothing.
\<close>

theorem second_branch_left_highlighted:
  "mount branchingRun 1000 1200 = Some branchingStart \<and>
   algorithm branchingRun = ''dfs'' \<and>
   paths branchingRun = [(''A'', ''B''), (''A'', ''C''), (''A'', ''D'')] \<and>
   lines (ticks branchingRun 1 branchingStart) = [activeLine 0 1, neutralLine 0 2, neutralLine 0 3] \<and>
   lines (ticks branchingRun 2 branchingStart) = [neutralLine 0 1, activeLine 0 2, neutralLine 0 3] \<and>
   lines (ticks branchingRun 3 branchingStart) = [neutralLine 0 1, activeLine 0 2, activeLine 0 3] \<and>
   lines (ticks branchingBfsRun 3 branchingStart) = [activeLine 0 1, activeLine 0 2, activeLine 0 3]"
  by (simp add: model_defs run_defs scene_defs ticks_numeral)

section \<open>C8: a path step that names a missing label\<close>

text \<open>
  C8, as stated, fails when the step with the missing label is the last one: the third
  step of this run names Z, which no node has; the firing that applies it changes no
  style, completes the run, and leaves the step index at 2.
\<close>

theorem missing_last_step_counterexample:
  "mount missingRefRun 1000 1200 = Some missingRefStart \<and>
   animationRef (ticks missingRefRun 2 missingRefStart) = Some False \<and>
   currentIndexRef (ticks missingRefRun 2 missingRefStart) = 2 \<and>
   paths missingRefRun ! 2 = (''B'', ''Z'') \<and>
   find (\<lambda>n. label n = ''Z'') (nodes missingRefRun) = None \<and>
   currentIndexRef (tick missingRefRun (ticks missingRefRun 2 missingRefStart)) = 2 \<and>
   isComplete (tick missingRefRun (ticks missingRefRun 2 missingRefStart))"
  by (simp add: model_defs run_defs scene_defs ticks_numeral)

text \<open>
  C8, amended. When the step at the current index names a source or target label that no
  node has, the firing that applies it changes no circle, no line and not the step text.
  If the step is not the last, the step index advances by 1 and the interval stays
  armed; if it is the last, the index stays and the run completes. Either way the run
  is complete once the remaining steps have been fired.
\<close>

theorem missing_reference_tolerated:
  assumes "animationRef s = Some False" and "currentIndexRef s < length (paths pr)"
    and "paths pr ! currentIndexRef s = (sourceLabel, targetLabel)"
    and "find (\<lambda>n. label n = sourceLabel) (nodes pr) = None
         \<or> find (\<lambda>n. label n = targetLabel) (nodes pr) = None"
  shows "circles (tick pr s) = circles s \<and> lines (tick pr s) = lines s \<and>
         currentStep (tick pr s) = currentStep s \<and>
         (currentIndexRef s + 1 < length (paths pr) \<longrightarrow>
            currentIndexRef (tick pr s) = currentIndexRef s + 1 \<and>
            animationRef (tick pr s) = Some False) \<and>
         (currentIndexRef s + 1 = length (paths pr) \<longrightarrow>
            currentIndexRef (tick pr s) = currentIndexRef s \<and> isComplete (tick pr s)) \<and>
         isComplete (ticks pr (length (paths pr) - currentIndexRef s) s)"
proof -
  have t: "tick pr s = advance pr s"
    using tick_running[OF assms(1)] applyPath_missing[OF assms(3,4)] by simp
  have "isComplete (ticks pr (length (paths pr) - currentIndexRef s) s)"
    using ticks_drain[OF assms(1,2), of "length (paths pr) - currentIndexRef s"] by simp
  then show ?thesis
    using assms(1) by (simp add: t advance_playback)
qed

text \<open>Witness for C8: the first step of the run, A to Z, which is not the last.\<close>

theorem missing_reference_tolerated_witness:
  "animationRef missingRefStart = Some False \<and>
   currentIndexRef missingRefStart < length (paths missingRefRun) \<and>
   paths missingRefRun ! currentIndexRef missingRefStart = (''A'', ''Z'') \<and>
   find (\<lambda>n. label n = ''Z'') (nodes missingRefRun) = None \<and>
   circles (tick missingRefRun missingRefStart) = circles missingRefStart \<and>
   lines (tick missingRefRun missingRefStart) = lines missingRefStart \<and>
   currentIndexRef (tick missingRefRun missingRefStart) = 1 \<and>
   animationRef (tick missingRefRun missingRefStart) = Some False \<and>
   isComplete (ticks missingRefRun 3 missingRefStart)"
proof -
  have a: "animationRef missingRefStart = Some False"
    and z: "currentIndexRef missingRefStart = 0"
    by (simp_all add: scene_defs)
  have n: "length (paths missingRefRun) = 3"
    and p: "paths missingRefRun ! currentIndexRef missingRefStart = (''A'', ''Z'')"
    and f: "find (\<lambda>n. label n = ''Z'') (nodes missingRefRun) = None"
    by (simp_all add: run_defs z)
  have b: "currentIndexRef missingRefStart < length (paths missingRefRun)"
    by (simp add: z n)
  show ?thesis
    using missing_reference_tolerated[OF a b p disjI2[OF f]] a b p f z n by simp
qed

section \<open>C9: a resize during a run\<close>




section \<open>C10: a step that walks a stored edge backwards\<close>




end
